theory Spec2Isabelle
  imports Complex_Main
begin

section \<open>The resource monitor of sysmon.py\<close>

text \<open>
  A shallow embedding of the class \<open>ResourceMonitor\<close> of \<open>src/sysmon.py\<close> and of the
  function \<open>send_windows_notification\<close> it calls. Python floats are modelled by the
  reals (comparisons of floats are exact; rounding of the one division is abstracted),
  Python ints by \<open>int\<close>. Points in time (\<open>time.time()\<close>, \<open>datetime.now()\<close>) are reals,
  in seconds. What the monitor does to the outside (starting a thread, writing a log
  line, calling the observer, sending a notification) is returned as a list of events,
  in the order the code performs them.
\<close>

subsection \<open>Data\<close>

text \<open>The fields of psutil's network counters that the monitor reads.\<close>

record counters =
  bytes_sent :: int
  bytes_recv :: int

text \<open>
  The dictionary \<open>info\<close>. \<open>cpu_percent\<close> is \<open>info['cpu_percent']\<close>, \<open>memory\<close> is
  \<open>info['memory'].percent\<close>; the other fields are read with \<open>info.get\<close>, so \<open>None\<close>
  stands for a missing key (or, for \<open>net_io\<close>, a falsy value).
\<close>

record info =
  cpu_percent :: real
  memory :: real
  net_io :: "counters option"
  net_upload_bps :: "real option"
  net_download_bps :: "real option"
  ping_ms :: "real option"

datatype thread_handle = Loop_Thread

record monitor =
  cpu_threshold :: real
  mem_threshold :: real
  interval :: int
  rate_limit_sec :: int
  notify_interval_sec :: int
  on_update :: bool
  running :: bool
  thread :: "thread_handle option"
  last_alert :: "real option"
  alerting :: bool
  last_net_io :: "counters option"
  last_net_time :: "real option"
  ping_host :: string

text \<open>The entries of \<open>trigger_reasons\<close>: the reading and the threshold it reached.\<close>

datatype reason = CPU_reason real real | Memory_reason real real

datatype body_line =
    Timestamp_line real
  | CPU_line real
  | Memory_line real
  | Upload_line real
  | Download_line real
  | Ping_line real

record alert =
  subject :: "reason list"
  body :: "body_line list"

datatype detail = Launched_external_toaster | Toast_unavailable

datatype log_msg =
    Monitor_started
  | Monitor_stopped
  | Alert_suppressed_zero
  | Notification_shown "reason list"
  | Notification_failed detail
  | Alert_suppressed_rate_limit
  | Recovered

datatype event =
    Spawn thread_handle
  | Log log_msg
  | Update info
  | Notify alert

text \<open>What a call of the callback \<open>on_update\<close> does: it returns, or raises an \<open>Exception\<close>.\<close>

datatype outcome = Returns | Raises

text \<open>
  What one iteration of the loop reads from outside the monitor: the result of
  \<open>get_system_info_dict()\<close>, \<open>time.time()\<close>, the round-trip time parsed from the ping
  (\<open>None\<close> when the ping fails), what the observer does when called, \<open>datetime.now()\<close>,
  the module's flag \<open>ENABLE_TOASTS\<close> and whether \<open>subprocess.Popen\<close> succeeds.
\<close>

record env =
  e_info :: info
  e_now_ts :: real
  e_ping :: "real option"
  e_observer :: outcome
  e_now :: real
  e_enable_toasts :: bool
  e_popen_ok :: bool

subsection \<open>Construction, start and stop\<close>

text \<open>\<open>int(x)\<close> on a number: truncation towards zero.\<close>

definition py_int :: "real \<Rightarrow> int" where
  "py_int x = (if 0 \<le> x then \<lfloor>x\<rfloor> else \<lceil>x\<rceil>)"

text \<open>
  \<open>ResourceMonitor.__init__\<close>, with the arguments \<open>cpu_threshold\<close>, \<open>mem_threshold\<close>,
  \<open>interval\<close>, \<open>rate_limit_min\<close>, \<open>notify_interval_sec\<close>, \<open>on_update\<close> (given or not) and
  \<open>ping_host\<close>. It has no \<open>raise\<close>. The arguments \<open>email_cfg\<close> and \<open>on_log\<close> are left
  out: the first is never read, and a log line is an event whether \<open>_log\<close> hands it to
  \<open>on_log\<close> or prints it.
\<close>

definition init :: "real \<Rightarrow> real \<Rightarrow> real \<Rightarrow> real \<Rightarrow> real \<Rightarrow> bool \<Rightarrow> string \<Rightarrow> monitor" where
  "init cpu_thr mem_thr ival rate_limit_min notify_ival upd host =
     \<lparr> cpu_threshold = cpu_thr,
       mem_threshold = mem_thr,
       interval = max 1 (py_int ival),
       rate_limit_sec = max 0 (py_int rate_limit_min * 60),
       notify_interval_sec = max 1 (py_int notify_ival),
       on_update = upd,
       running = False,
       thread = None,
       last_alert = None,
       alerting = False,
       last_net_io = None,
       last_net_time = None,
       ping_host = host \<rparr>"

definition start :: "monitor \<Rightarrow> monitor \<times> event list" where
  "start m =
     (if running m then (m, [])
      else (m\<lparr>running := True, thread := Some Loop_Thread\<rparr>,
            [Spawn Loop_Thread, Log Monitor_started]))"

definition stop :: "monitor \<Rightarrow> monitor \<times> event list" where
  "stop m = (m\<lparr>running := False\<rparr>, [Log Monitor_stopped])"

text \<open>Two calls in sequence: the second runs on the state the first leaves.\<close>

definition seq :: "(monitor \<Rightarrow> monitor \<times> event list) \<Rightarrow> (monitor \<Rightarrow> monitor \<times> event list)
    \<Rightarrow> monitor \<Rightarrow> monitor \<times> event list" where
  "seq f g m = (case f m of (m1, ev1) \<Rightarrow> (case g m1 of (m2, ev2) \<Rightarrow> (m2, ev1 @ ev2)))"

text \<open>
  The handler of the window's Start button (the function \<open>start\<close> of the main block):
  \<open>monitor.cpu_threshold = int(cpu_thr.get())\<close>, the same for the memory threshold, then
  \<open>monitor.start()\<close>. It writes the thresholds of the two entry fields into the monitor
  whether the monitor runs or not. The window calls it once when it opens and then at
  every press of the button.
\<close>

definition gui_start :: "int \<Rightarrow> int \<Rightarrow> monitor \<Rightarrow> monitor \<times> event list" where
  "gui_start cpu_thr mem_thr m =
     start (m\<lparr>cpu_threshold := of_int cpu_thr, mem_threshold := of_int mem_thr\<rparr>)"

subsection \<open>Network rates\<close>

text \<open>
  \<open>float(n)\<close> on an int raises \<open>OverflowError\<close> when \<open>n\<close> is beyond the range of a double;
  \<open>None\<close> is that exception.
\<close>

definition py_float :: "int \<Rightarrow> real option" where
  "py_float n = (if \<bar>n\<bar> < 2 ^ 1024 - 2 ^ 970 then Some (of_int n) else None)"

text \<open>
  The body of \<open>if self._last_net_io is not None and self._last_net_time is not None\<close>:
  \<open>elapsed = max(1e-6, now_ts - self._last_net_time)\<close>, then the \<open>try\<close> block and its
  \<open>except\<close>, which sets both rates to 0.0.
\<close>

definition elapsed_since :: "real \<Rightarrow> real \<Rightarrow> real" where
  "elapsed_since prev_time now_ts = max (1 / 1000000) (now_ts - prev_time)"

definition rates_from :: "counters \<Rightarrow> real \<Rightarrow> counters \<Rightarrow> real \<Rightarrow> real \<times> real" where
  "rates_from prev prev_time cur now_ts =
     (let elapsed = elapsed_since prev_time now_ts in
      case py_float (bytes_sent cur - bytes_sent prev) of
        None \<Rightarrow> (0, 0)
      | Some delta_sent \<Rightarrow>
          (case py_float (bytes_recv cur - bytes_recv prev) of
             None \<Rightarrow> (0, 0)
           | Some delta_recv \<Rightarrow> (delta_sent / elapsed, delta_recv / elapsed)))"

text \<open>
  The rate computation of one iteration: \<open>up_bps = down_bps = 0.0\<close>, then the block
  \<open>if net_io:\<close>, which also saves the sample for the next iteration. The result is the
  monitor and \<open>(up_bps, down_bps)\<close>.
\<close>

definition net_rates :: "monitor \<Rightarrow> counters option \<Rightarrow> real \<Rightarrow> monitor \<times> real \<times> real" where
  "net_rates m nio now_ts =
     (case nio of
        None \<Rightarrow> (m, 0, 0)
      | Some cur \<Rightarrow>
          (m\<lparr>last_net_io := Some cur, last_net_time := Some now_ts\<rparr>,
           (case last_net_io m of
              None \<Rightarrow> (0, 0)
            | Some prev \<Rightarrow>
                (case last_net_time m of
                   None \<Rightarrow> (0, 0)
                 | Some prev_time \<Rightarrow> rates_from prev prev_time cur now_ts))))"

subsection \<open>Threshold evaluation\<close>

text \<open>
  \<open>send_windows_notification\<close>, by the flag \<open>ENABLE_TOASTS\<close> and by whether
  \<open>subprocess.Popen\<close> succeeds: the toaster is launched, or the function falls through to
  printing the notification and returns \<open>False\<close>. The title and the message do not
  change the result.
\<close>

definition send_windows_notification :: "bool \<Rightarrow> bool \<Rightarrow> bool \<times> detail" where
  "send_windows_notification enable_toasts popen_ok =
     (if enable_toasts \<and> popen_ok then (True, Launched_external_toaster)
      else (False, Toast_unavailable))"

definition trigger_reasons :: "monitor \<Rightarrow> real \<Rightarrow> real \<Rightarrow> reason list" where
  "trigger_reasons m cpu mem =
     (if cpu \<ge> cpu_threshold m then [CPU_reason cpu (cpu_threshold m)] else []) @
     (if mem \<ge> mem_threshold m then [Memory_reason mem (mem_threshold m)] else [])"

definition can_send :: "monitor \<Rightarrow> real \<Rightarrow> bool" where
  "can_send m now =
     (case last_alert m of
        None \<Rightarrow> True
      | Some t \<Rightarrow> now - t \<ge> of_int (notify_interval_sec m))"

text \<open>
  \<open>info.get(key, 0.0)\<close>. The result is a number, never \<open>None\<close>, so the test
  \<open>if up_bps is not None\<close> of the alert body always succeeds and the body always has
  the upload and the download line.
\<close>

definition get_default :: "real option \<Rightarrow> real" where
  "get_default v = (case v of None \<Rightarrow> 0 | Some x \<Rightarrow> x)"

definition body_lines :: "info \<Rightarrow> real \<Rightarrow> real \<Rightarrow> real \<Rightarrow> body_line list" where
  "body_lines i now cpu mem =
     [Timestamp_line now, CPU_line cpu, Memory_line mem] @
     [Upload_line (get_default (net_upload_bps i) / 1024),
      Download_line (get_default (net_download_bps i) / 1024)] @
     (case ping_ms i of None \<Rightarrow> [] | Some p \<Rightarrow> [Ping_line p])"

text \<open>
  The step from \<open>trigger_reasons = []\<close> to the last \<open>else\<close> of \<open>if trigger_reasons:\<close>: it
  decides whether a notification is sent and updates \<open>_last_alert\<close> and \<open>_alerting\<close>.
\<close>

definition evaluate :: "monitor \<Rightarrow> info \<Rightarrow> real \<Rightarrow> real \<Rightarrow> env \<Rightarrow> monitor \<times> event list" where
  "evaluate m i cpu mem e =
     (let now = e_now e; reasons = trigger_reasons m cpu mem in
      if reasons \<noteq> [] then
        if cpu \<le> 0 \<and> mem \<le> 0 then (m, [Log Alert_suppressed_zero])
        else if can_send m now then
          (let a = \<lparr> subject = reasons, body = body_lines i now cpu mem \<rparr> in
           case send_windows_notification (e_enable_toasts e) (e_popen_ok e) of
             (success, msg) \<Rightarrow>
               if success then
                 (m\<lparr>last_alert := Some now, alerting := True\<rparr>,
                  [Notify a, Log (Notification_shown reasons)])
               else
                 (m\<lparr>last_alert := Some now, alerting := True\<rparr>,
                  [Notify a, Log (Notification_failed msg)]))
        else (m, [Log Alert_suppressed_rate_limit])
      else (m, []))"

text \<open>The last \<open>if\<close> of the iteration: leaving the alerting state.\<close>

definition recover :: "real \<Rightarrow> real \<Rightarrow> monitor \<Rightarrow> real \<Rightarrow> real \<Rightarrow> monitor \<times> event list" where
  "recover clear_cpu clear_mem m cpu mem =
     (if alerting m \<and> cpu < clear_cpu \<and> mem < clear_mem
      then (m\<lparr>alerting := False\<rparr>, [Log Recovered])
      else (m, []))"

subsection \<open>The loop\<close>

text \<open>
  The call \<open>self.on_update(info)\<close>: the observer is called with the dictionary, and the
  call returns (\<open>None\<close>) or raises (the exception).
\<close>

datatype py_exception = Exception

definition call_observer :: "info \<Rightarrow> outcome \<Rightarrow> event list \<times> py_exception option" where
  "call_observer i obs =
     ([Update i], (case obs of Returns \<Rightarrow> None | Raises \<Rightarrow> Some Exception))"

text \<open>
  \<open>if self.on_update: try: self.on_update(info) except Exception: pass\<close>. The handler
  does nothing: no event is added and the iteration goes on.
\<close>

definition publish :: "monitor \<Rightarrow> info \<Rightarrow> outcome \<Rightarrow> event list" where
  "publish m i obs =
     (if on_update m then
        (case call_observer i obs of
           (ev, None) \<Rightarrow> ev
         | (ev, Some exc) \<Rightarrow> ev)
      else [])"

text \<open>The dictionary \<open>info\<close> as the iteration completes it before the observer sees it.\<close>

definition snapshot :: "monitor \<Rightarrow> env \<Rightarrow> info" where
  "snapshot m e =
     (case net_rates m (net_io (e_info e)) (e_now_ts e) of
        (m1, up_bps, down_bps) \<Rightarrow>
          (e_info e)\<lparr>net_upload_bps := Some up_bps, net_download_bps := Some down_bps,
                    ping_ms := e_ping e\<rparr>)"

text \<open>
  The threshold evaluation as the iteration runs it: on the monitor that holds the new
  counter sample, with \<open>cpu = info['cpu_percent']\<close> and \<open>mem = info['memory'].percent\<close>.
\<close>

definition evaluation :: "monitor \<Rightarrow> env \<Rightarrow> monitor \<times> event list" where
  "evaluation m e =
     evaluate (fst (net_rates m (net_io (e_info e)) (e_now_ts e))) (snapshot m e)
       (cpu_percent (e_info e)) (memory (e_info e)) e"

text \<open>One iteration of \<open>while self._running\<close>, without the sleep.\<close>

definition tick :: "real \<Rightarrow> real \<Rightarrow> monitor \<Rightarrow> env \<Rightarrow> monitor \<times> event list" where
  "tick clear_cpu clear_mem m e =
     (let m1 = fst (net_rates m (net_io (e_info e)) (e_now_ts e));
          i = snapshot m e;
          cpu = cpu_percent (e_info e);
          mem = memory (e_info e);
          ev1 = publish m1 i (e_observer e)
      in case evaluation m e of
           (m2, ev2) \<Rightarrow>
             (case recover clear_cpu clear_mem m2 cpu mem of
                (m3, ev3) \<Rightarrow> (m3, ev1 @ ev2 @ ev3)))"

text \<open>
  The iterations of the loop over the successive readings of the environment; the flag
  \<open>_running\<close> is tested before each one.
\<close>

fun run_ticks :: "real \<Rightarrow> real \<Rightarrow> monitor \<Rightarrow> env list \<Rightarrow> monitor \<times> event list" where
  "run_ticks clear_cpu clear_mem m [] = (m, [])"
| "run_ticks clear_cpu clear_mem m (e # es) =
     (if running m then
        (case tick clear_cpu clear_mem m e of
           (m1, ev1) \<Rightarrow>
             (case run_ticks clear_cpu clear_mem m1 es of
                (m2, ev2) \<Rightarrow> (m2, ev1 @ ev2)))
      else (m, []))"

text \<open>
  \<open>_loop\<close>: \<open>clear_cpu\<close> and \<open>clear_mem\<close> are computed once, before the first iteration.
\<close>

definition clear_cpu_of :: "monitor \<Rightarrow> real" where
  "clear_cpu_of m = max 0 (cpu_threshold m - 15)"

definition clear_mem_of :: "monitor \<Rightarrow> real" where
  "clear_mem_of m = max 0 (mem_threshold m - 15)"

definition loop :: "monitor \<Rightarrow> env list \<Rightarrow> monitor \<times> event list" where
  "loop m es = run_ticks (clear_cpu_of m) (clear_mem_of m) m es"

text \<open>
  The loop of a monitor that the window controls. Between two iterations, while the
  loop's thread sleeps, the main thread may run the handler of the Start button. The
  handler changes the thresholds of the monitor; \<open>clear_cpu\<close> and \<open>clear_mem\<close> are local
  variables of \<open>_loop\<close> and keep the values computed before the first iteration.
\<close>

datatype step = Iteration env | Start_pressed int int

fun run_steps :: "real \<Rightarrow> real \<Rightarrow> monitor \<Rightarrow> step list \<Rightarrow> monitor \<times> event list" where
  "run_steps clear_cpu clear_mem m [] = (m, [])"
| "run_steps clear_cpu clear_mem m (Iteration e # ss) =
     (if running m then
        (case tick clear_cpu clear_mem m e of
           (m1, ev1) \<Rightarrow>
             (case run_steps clear_cpu clear_mem m1 ss of
                (m2, ev2) \<Rightarrow> (m2, ev1 @ ev2)))
      else (m, []))"
| "run_steps clear_cpu clear_mem m (Start_pressed cpu_thr mem_thr # ss) =
     (case gui_start cpu_thr mem_thr m of
        (m1, ev1) \<Rightarrow>
          (case run_steps clear_cpu clear_mem m1 ss of
             (m2, ev2) \<Rightarrow> (m2, ev1 @ ev2)))"

definition loop_with_gui :: "monitor \<Rightarrow> step list \<Rightarrow> monitor \<times> event list" where
  "loop_with_gui m ss = run_steps (clear_cpu_of m) (clear_mem_of m) m ss"

subsection \<open>Reading the events\<close>

text \<open>The dictionaries the observer was called with, in order.\<close>

fun published :: "event list \<Rightarrow> info list" where
  "published [] = []"
| "published (Update i # evs) = i # published evs"
| "published (Spawn t # evs) = published evs"
| "published (Log l # evs) = published evs"
| "published (Notify a # evs) = published evs"

text \<open>The calls of \<open>send_windows_notification\<close>, in order.\<close>

fun alerts :: "event list \<Rightarrow> alert list" where
  "alerts [] = []"
| "alerts (Notify a # evs) = a # alerts evs"
| "alerts (Spawn t # evs) = alerts evs"
| "alerts (Log l # evs) = alerts evs"
| "alerts (Update i # evs) = alerts evs"

text \<open>The log lines, in order.\<close>

fun logs :: "event list \<Rightarrow> log_msg list" where
  "logs [] = []"
| "logs (Log l # evs) = l # logs evs"
| "logs (Spawn t # evs) = logs evs"
| "logs (Update i # evs) = logs evs"
| "logs (Notify a # evs) = logs evs"

text \<open>The threads started, in order.\<close>

fun spawns :: "event list \<Rightarrow> thread_handle list" where
  "spawns [] = []"
| "spawns (Spawn t # evs) = t # spawns evs"
| "spawns (Log l # evs) = spawns evs"
| "spawns (Update i # evs) = spawns evs"
| "spawns (Notify a # evs) = spawns evs"

subsection \<open>The conditions of the specification\<close>

text \<open>
  The condition under which the specification has a notification fired, in its words:
  a breach, not both readings at or below zero, and no alert yet or the notify interval
  elapsed since the last one.
\<close>

definition spec_fire_condition :: "monitor \<Rightarrow> real \<Rightarrow> real \<Rightarrow> real \<Rightarrow> bool" where
  "spec_fire_condition m cpu mem now =
     ((cpu \<ge> cpu_threshold m \<or> mem \<ge> mem_threshold m) \<and>
      \<not> (cpu \<le> 0 \<and> mem \<le> 0) \<and>
      (last_alert m = None \<or>
       (case last_alert m of None \<Rightarrow> False
        | Some t \<Rightarrow> now - t \<ge> of_int (notify_interval_sec m))))"

text \<open>
  The condition under which the specification has the alert cleared, in its words:
  both readings below the fire threshold minus the clear margin of 15 points.
\<close>

definition spec_clear_condition :: "monitor \<Rightarrow> real \<Rightarrow> real \<Rightarrow> bool" where
  "spec_clear_condition m cpu mem =
     (cpu < cpu_threshold m - 15 \<and> mem < mem_threshold m - 15)"

subsection \<open>Sample inputs\<close>

text \<open>The monitor with the defaults of the command line, and an observer.\<close>

definition default_monitor :: monitor where
  "default_monitor = init 90 70 1 5 10 True ''8.8.8.8''"

text \<open>A reading with the given load and network counters, taken at the given time.\<close>

definition reading :: "real \<Rightarrow> real \<Rightarrow> int \<Rightarrow> int \<Rightarrow> real \<Rightarrow> env" where
  "reading cpu mem sent recv t =
     \<lparr> e_info = \<lparr> cpu_percent = cpu, memory = mem,
                  net_io = Some \<lparr> bytes_sent = sent, bytes_recv = recv \<rparr>,
                  net_upload_bps = None, net_download_bps = None, ping_ms = None \<rparr>,
       e_now_ts = t,
       e_ping = None,
       e_observer = Returns,
       e_now = t,
       e_enable_toasts = False,
       e_popen_ok = False \<rparr>"

text \<open>The default monitor after \<open>start()\<close>.\<close>

definition started_monitor :: monitor where
  "started_monitor = fst (start default_monitor)"

text \<open>A monitor that holds the counter sample (1000, 500) taken at time 0.\<close>

definition sampled_monitor :: monitor where
  "sampled_monitor =
     started_monitor\<lparr>last_net_io := Some \<lparr> bytes_sent = 1000, bytes_recv = 500 \<rparr>,
                     last_net_time := Some 0\<rparr>"

text \<open>A monitor in the alerting state, its last alert at time 0.\<close>

definition alerting_monitor :: monitor where
  "alerting_monitor = started_monitor\<lparr>last_alert := Some 0, alerting := True\<rparr>"

text \<open>
  An alert at time 0 under the thresholds 90 and 70, then the Start button pressed with
  the CPU threshold changed to 50, then the readings cpu = 60 and mem = 10 at the given
  time.
\<close>

definition alert_then_lower_threshold :: "step list" where
  "alert_then_lower_threshold = [Iteration (reading 95 50 0 0 0), Start_pressed 50 70]"

definition lowered_then_reading :: "real \<Rightarrow> step list" where
  "lowered_then_reading t = alert_then_lower_threshold @ [Iteration (reading 60 10 0 0 t)]"

section \<open>Properties\<close>

subsection \<open>Frame and unfolding lemmas\<close>

lemma net_rates_frame:
  "cpu_threshold (fst (net_rates m nio t)) = cpu_threshold m"
  "mem_threshold (fst (net_rates m nio t)) = mem_threshold m"
  "notify_interval_sec (fst (net_rates m nio t)) = notify_interval_sec m"
  "last_alert (fst (net_rates m nio t)) = last_alert m"
  "alerting (fst (net_rates m nio t)) = alerting m"
  "on_update (fst (net_rates m nio t)) = on_update m"
  "running (fst (net_rates m nio t)) = running m"
  by (simp_all add: net_rates_def split: option.splits)

text \<open>The four outcomes of the evaluation, by the condition that selects each.\<close>

lemma evaluate_cases:
  "evaluate m i cpu mem e =
     (if spec_fire_condition m cpu mem (e_now e) then
        (m\<lparr>last_alert := Some (e_now e), alerting := True\<rparr>,
         [Notify \<lparr> subject = trigger_reasons m cpu mem, body = body_lines i (e_now e) cpu mem \<rparr>,
          Log (if e_enable_toasts e \<and> e_popen_ok e
               then Notification_shown (trigger_reasons m cpu mem)
               else Notification_failed Toast_unavailable)])
      else if (cpu \<ge> cpu_threshold m \<or> mem \<ge> mem_threshold m) \<and> cpu \<le> 0 \<and> mem \<le> 0 then
        (m, [Log Alert_suppressed_zero])
      else if cpu \<ge> cpu_threshold m \<or> mem \<ge> mem_threshold m then
        (m, [Log Alert_suppressed_rate_limit])
      else (m, []))"
  by (auto simp add: evaluate_def spec_fire_condition_def trigger_reasons_def can_send_def
      send_windows_notification_def Let_def split: option.splits)

lemma spec_fire_condition_net_rates:
  "spec_fire_condition (fst (net_rates m nio t)) cpu mem now = spec_fire_condition m cpu mem now"
  by (simp add: spec_fire_condition_def net_rates_frame split: option.splits)

lemma publish_eq: "publish m i obs = (if on_update m then [Update i] else [])"
  by (simp add: publish_def call_observer_def split: outcome.splits)

lemma published_append: "published (xs @ ys) = published xs @ published ys"
  by (induction xs rule: published.induct) simp_all

lemma alerts_append: "alerts (xs @ ys) = alerts xs @ alerts ys"
  by (induction xs rule: alerts.induct) simp_all

lemma logs_append: "logs (xs @ ys) = logs xs @ logs ys"
  by (induction xs rule: logs.induct) simp_all

lemma published_evaluate: "published (snd (evaluate m i cpu mem e)) = []"
  by (simp add: evaluate_cases)

lemma published_recover: "published (snd (recover cc cm m cpu mem)) = []"
  by (simp add: recover_def)

lemma alerts_recover: "alerts (snd (recover cc cm m cpu mem)) = []"
  by (simp add: recover_def)

lemma last_alert_recover: "last_alert (fst (recover cc cm m cpu mem)) = last_alert m"
  by (simp add: recover_def)

lemma tick_published:
  "published (snd (tick cc cm m e)) = (if on_update m then [snapshot m e] else [])"
  by (simp add: tick_def Let_def evaluation_def split_beta published_append published_evaluate
      published_recover publish_eq net_rates_frame)

lemma tick_alerts: "alerts (snd (tick cc cm m e)) = alerts (snd (evaluation m e))"
  by (simp add: tick_def Let_def split_beta alerts_append alerts_recover publish_eq)

lemma tick_last_alert: "last_alert (fst (tick cc cm m e)) = last_alert (fst (evaluation m e))"
  by (simp add: tick_def Let_def split_beta last_alert_recover)



text \<open>All definitions of the model, for evaluating it on concrete inputs.\<close>

lemmas model_defs =
  py_int_def init_def start_def stop_def seq_def py_float_def elapsed_since_def rates_from_def
  net_rates_def send_windows_notification_def trigger_reasons_def can_send_def get_default_def
  body_lines_def evaluate_def recover_def call_observer_def publish_def snapshot_def
  evaluation_def tick_def clear_cpu_of_def clear_mem_of_def loop_def spec_fire_condition_def
  spec_clear_condition_def default_monitor_def reading_def started_monitor_def sampled_monitor_def
  alerting_monitor_def Let_def

subsection \<open>Network rates\<close>






text \<open>
  C2, as the code has it. On an iteration with no previous counter sample stored, the
  rates put into the dictionary, and so the rates the observer receives, are the
  number 0.0 for upload and for download, not \<open>None\<close>.
\<close>

theorem first_sample_rates_zero:
  assumes "last_net_io m = None \<or> last_net_time m = None"
  shows "net_upload_bps (snapshot m e) = Some 0 \<and>
         net_download_bps (snapshot m e) = Some 0 \<and>
         published (snd (tick cc cm m e)) = (if on_update m then [snapshot m e] else [])"
  using assms
  by (auto simp add: tick_published snapshot_def net_rates_def split: option.splits)

theorem first_sample_rates_zero_witness:
  "(last_net_io started_monitor = None \<or> last_net_time started_monitor = None) \<and>
   net_upload_bps (snapshot started_monitor (reading 10 10 1000 500 0)) = Some 0 \<and>
   net_download_bps (snapshot started_monitor (reading 10 10 1000 500 0)) = Some 0"
proof -
  have h: "last_net_io started_monitor = None \<or> last_net_time started_monitor = None"
    by (simp add: started_monitor_def default_monitor_def init_def start_def)
  show ?thesis
    using first_sample_rates_zero [OF h, of "reading 10 10 1000 500 0" 75 55] h
    by simp
qed

text \<open>
  C2 as stated fails: on the first iteration of a freshly started monitor the observer
  receives the rates 0.0 and 0.0.
\<close>

theorem first_sample_not_none:
  "map net_upload_bps (published (snd (loop started_monitor [reading 10 10 1000 500 0]))) =
     [Some 0] \<and>
   map net_download_bps (published (snd (loop started_monitor [reading 10 10 1000 500 0]))) =
     [Some 0]"
  by (simp add: model_defs)

subsection \<open>Firing a notification\<close>

lemma evaluation_fire:
  assumes "spec_fire_condition m (cpu_percent (e_info e)) (memory (e_info e)) (e_now e)"
  shows "last_alert (fst (evaluation m e)) = Some (e_now e)"
    and "alerting (fst (evaluation m e))"
    and "map subject (alerts (snd (evaluation m e))) =
           [trigger_reasons m (cpu_percent (e_info e)) (memory (e_info e))]"
  using assms
  by (simp_all add: evaluation_def evaluate_cases spec_fire_condition_net_rates
      trigger_reasons_def net_rates_frame)

lemma evaluation_no_fire:
  assumes "\<not> spec_fire_condition m (cpu_percent (e_info e)) (memory (e_info e)) (e_now e)"
  shows "alerts (snd (evaluation m e)) = []"
    and "last_alert (fst (evaluation m e)) = last_alert m"
    and "alerting (fst (evaluation m e)) = alerting m"
  using assms
  by (simp_all add: evaluation_def evaluate_cases spec_fire_condition_net_rates net_rates_frame)

lemma evaluation_toast_independent:
  "fst (evaluation m (e\<lparr>e_enable_toasts := a, e_popen_ok := b\<rparr>)) = fst (evaluation m e)"
  by (simp add: evaluation_def evaluate_cases snapshot_def split_beta)

lemma tick_alerting:
  "alerting (fst (tick cc cm m e)) =
     (alerting (fst (evaluation m e)) \<and>
      \<not> (cpu_percent (e_info e) < cc \<and> memory (e_info e) < cm))"
  by (auto simp add: tick_def Let_def split_beta recover_def)

text \<open>
  The thresholds are not changed by an iteration, so the clear thresholds that \<open>_loop\<close>
  computes before its first iteration are those of the monitor at every iteration.
\<close>

lemma tick_thresholds:
  "cpu_threshold (fst (tick cc cm m e)) = cpu_threshold m"
  "mem_threshold (fst (tick cc cm m e)) = mem_threshold m"
  by (simp_all add: tick_def Let_def split_beta recover_def evaluation_def evaluate_cases
      net_rates_frame)

lemma loop_step:
  "running m \<Longrightarrow>
   loop m (e # es) =
     (case tick (clear_cpu_of m) (clear_mem_of m) m e of
        (m1, ev1) \<Rightarrow> (case loop m1 es of (m2, ev2) \<Rightarrow> (m2, ev1 @ ev2)))"
  by (simp add: loop_def clear_cpu_of_def clear_mem_of_def tick_thresholds split_beta)

text \<open>
  C3. On every iteration the notifier is called once if the fire condition of the
  specification holds (a breach, not both readings at or below zero, and no alert yet
  or the notify interval elapsed) and not at all otherwise. When it is called, the
  evaluation sets \<open>_last_alert\<close> to now and \<open>_alerting\<close> to true, whatever the notifier
  reports, \<open>_last_alert\<close> is still now at the end of the iteration, and a breach of both
  thresholds gives one alert whose subject holds both reasons. With readings that are
  not negative and the clear thresholds \<open>_loop\<close> computes, \<open>_alerting\<close> is still true at
  the end of the iteration.
\<close>

theorem notification_iff_fire_condition:
  "length (alerts (snd (tick cc cm m e))) =
     (if spec_fire_condition m (cpu_percent (e_info e)) (memory (e_info e)) (e_now e) then 1 else 0) \<and>
   (spec_fire_condition m (cpu_percent (e_info e)) (memory (e_info e)) (e_now e) \<longrightarrow>
      last_alert (fst (evaluation m e)) = Some (e_now e) \<and>
      alerting (fst (evaluation m e)) \<and>
      last_alert (fst (tick cc cm m e)) = Some (e_now e) \<and>
      fst (evaluation m (e\<lparr>e_enable_toasts := a, e_popen_ok := b\<rparr>)) = fst (evaluation m e)) \<and>
   (spec_fire_condition m (cpu_percent (e_info e)) (memory (e_info e)) (e_now e) \<and>
    cpu_percent (e_info e) \<ge> cpu_threshold m \<and> memory (e_info e) \<ge> mem_threshold m \<longrightarrow>
      map subject (alerts (snd (tick cc cm m e))) =
        [[CPU_reason (cpu_percent (e_info e)) (cpu_threshold m),
          Memory_reason (memory (e_info e)) (mem_threshold m)]]) \<and>
   (spec_fire_condition m (cpu_percent (e_info e)) (memory (e_info e)) (e_now e) \<and>
    0 \<le> cpu_percent (e_info e) \<and> 0 \<le> memory (e_info e) \<longrightarrow>
      alerting (fst (tick (clear_cpu_of m) (clear_mem_of m) m e)))"
proof (cases "spec_fire_condition m (cpu_percent (e_info e)) (memory (e_info e)) (e_now e)")
  case True
  note fire = evaluation_fire [OF True]
  have len: "length (alerts (snd (tick cc cm m e))) = 1"
    using fire(3) by (simp only: tick_alerts) (metis length_map length_Cons list.size(3) One_nat_def)
  have both: "cpu_percent (e_info e) \<ge> cpu_threshold m \<and> memory (e_info e) \<ge> mem_threshold m \<longrightarrow>
      map subject (alerts (snd (tick cc cm m e))) =
        [[CPU_reason (cpu_percent (e_info e)) (cpu_threshold m),
          Memory_reason (memory (e_info e)) (mem_threshold m)]]"
    by (simp add: tick_alerts fire(3) trigger_reasons_def)
  have stay: "0 \<le> cpu_percent (e_info e) \<and> 0 \<le> memory (e_info e) \<longrightarrow>
      alerting (fst (tick (clear_cpu_of m) (clear_mem_of m) m e))"
    using True fire(2)
    by (auto simp add: tick_alerting spec_fire_condition_def clear_cpu_of_def clear_mem_of_def)
  show ?thesis
    using True len both stay fire(1,2)
    by (simp add: tick_last_alert evaluation_toast_independent)
next
  case False
  then show ?thesis
    by (simp add: tick_alerts evaluation_no_fire(1))
qed

theorem notification_iff_fire_condition_witness:
  "spec_fire_condition started_monitor 95 80 0 \<and>
   length (alerts (snd (tick 75 55 started_monitor (reading 95 80 0 0 0)))) = 1 \<and>
   map subject (alerts (snd (tick 75 55 started_monitor (reading 95 80 0 0 0)))) =
     [[CPU_reason 95 90, Memory_reason 80 70]] \<and>
   last_alert (fst (tick 75 55 started_monitor (reading 95 80 0 0 0))) = Some 0 \<and>
   alerting (fst (tick (clear_cpu_of started_monitor) (clear_mem_of started_monitor)
                   started_monitor (reading 95 80 0 0 0))) \<and>
   \<not> spec_fire_condition alerting_monitor 96 50 5 \<and>
   length (alerts (snd (tick 75 55 alerting_monitor (reading 96 50 0 0 5)))) = 0"
proof -
  have r: "cpu_percent (e_info (reading 95 80 0 0 0)) = 95" "memory (e_info (reading 95 80 0 0 0)) = 80"
    "e_now (reading 95 80 0 0 0) = 0"
    "cpu_percent (e_info (reading 96 50 0 0 5)) = 96" "memory (e_info (reading 96 50 0 0 5)) = 50"
    "e_now (reading 96 50 0 0 5) = 5"
    by (simp_all add: reading_def)
  have t: "cpu_threshold started_monitor = 90" "mem_threshold started_monitor = 70"
    by (simp_all add: started_monitor_def default_monitor_def init_def start_def)
  have f1: "spec_fire_condition started_monitor 95 80 0"
    by (simp add: spec_fire_condition_def started_monitor_def default_monitor_def init_def start_def)
  have f2: "\<not> spec_fire_condition alerting_monitor 96 50 5"
    by (simp add: spec_fire_condition_def alerting_monitor_def started_monitor_def
        default_monitor_def init_def start_def py_int_def)
  show ?thesis
    using notification_iff_fire_condition [of 75 55 started_monitor "reading 95 80 0 0 0"]
      notification_iff_fire_condition [of 75 55 alerting_monitor "reading 96 50 0 0 5"] f1 f2
    by (simp add: r t)
qed

text \<open>
  C5. On every iteration in which a threshold is reached while both readings are at
  or below zero, the notifier is not called: the evaluation only writes the log line
  of the zero guard.
\<close>

theorem zero_readings_never_notify:
  assumes "cpu_percent (e_info e) \<ge> cpu_threshold m \<or> memory (e_info e) \<ge> mem_threshold m"
    and "cpu_percent (e_info e) \<le> 0" and "memory (e_info e) \<le> 0"
  shows "alerts (snd (tick cc cm m e)) = [] \<and>
         snd (evaluation m e) = [Log Alert_suppressed_zero]"
  using assms
  by (simp add: tick_alerts evaluation_def evaluate_cases spec_fire_condition_def net_rates_frame)

theorem zero_readings_never_notify_witness:
  "(cpu_percent (e_info (reading 0 0 0 0 0)) \<ge> cpu_threshold (init 0 70 1 5 10 True ''8.8.8.8'') \<or>
    memory (e_info (reading 0 0 0 0 0)) \<ge> mem_threshold (init 0 70 1 5 10 True ''8.8.8.8'')) \<and>
   cpu_percent (e_info (reading 0 0 0 0 0)) \<le> 0 \<and> memory (e_info (reading 0 0 0 0 0)) \<le> 0 \<and>
   alerts (snd (tick 0 55 (init 0 70 1 5 10 True ''8.8.8.8'') (reading 0 0 0 0 0))) = [] \<and>
   snd (evaluation (init 0 70 1 5 10 True ''8.8.8.8'') (reading 0 0 0 0 0)) =
     [Log Alert_suppressed_zero]"
proof -
  have h1: "cpu_percent (e_info (reading 0 0 0 0 0)) \<ge> cpu_threshold (init 0 70 1 5 10 True ''8.8.8.8'') \<or>
    memory (e_info (reading 0 0 0 0 0)) \<ge> mem_threshold (init 0 70 1 5 10 True ''8.8.8.8'')"
    by (simp add: reading_def init_def)
  have h2: "cpu_percent (e_info (reading 0 0 0 0 0)) \<le> 0"
    by (simp add: reading_def)
  have h3: "memory (e_info (reading 0 0 0 0 0)) \<le> 0"
    by (simp add: reading_def)
  show ?thesis
    using zero_readings_never_notify [OF h1 h2 h3, of 0 55] h1 h2 h3
    by simp
qed

text \<open>
  C10. On every iteration in which a threshold is reached but the notification is
  suppressed, by the zero guard or because the notify interval has not elapsed since
  the last alert, the evaluation leaves \<open>_last_alert\<close> and \<open>_alerting\<close> as they were
  (it returns the monitor it was given) and calls no notifier.
\<close>

theorem suppressed_breach_keeps_alert_state:
  assumes "cpu_percent (e_info e) \<ge> cpu_threshold m \<or> memory (e_info e) \<ge> mem_threshold m"
    and "(cpu_percent (e_info e) \<le> 0 \<and> memory (e_info e) \<le> 0) \<or>
         (case last_alert m of None \<Rightarrow> False
          | Some t \<Rightarrow> e_now e - t < of_int (notify_interval_sec m))"
  shows "last_alert (fst (evaluation m e)) = last_alert m \<and>
         alerting (fst (evaluation m e)) = alerting m \<and>
         fst (evaluation m e) = fst (net_rates m (net_io (e_info e)) (e_now_ts e)) \<and>
         alerts (snd (evaluation m e)) = []"
proof -
  have nf: "\<not> spec_fire_condition m (cpu_percent (e_info e)) (memory (e_info e)) (e_now e)"
    using assms(2) by (auto simp add: spec_fire_condition_def split: option.splits)
  then have "fst (evaluation m e) = fst (net_rates m (net_io (e_info e)) (e_now_ts e))"
    by (simp add: evaluation_def evaluate_cases spec_fire_condition_net_rates)
  then show ?thesis
    using evaluation_no_fire [OF nf] by simp
qed

theorem suppressed_breach_keeps_alert_state_witness:
  "(cpu_percent (e_info (reading 96 50 0 0 5)) \<ge> cpu_threshold alerting_monitor \<or>
    memory (e_info (reading 96 50 0 0 5)) \<ge> mem_threshold alerting_monitor) \<and>
   ((cpu_percent (e_info (reading 96 50 0 0 5)) \<le> 0 \<and> memory (e_info (reading 96 50 0 0 5)) \<le> 0) \<or>
    (case last_alert alerting_monitor of None \<Rightarrow> False
     | Some t \<Rightarrow> e_now (reading 96 50 0 0 5) - t < of_int (notify_interval_sec alerting_monitor))) \<and>
   last_alert (fst (evaluation alerting_monitor (reading 96 50 0 0 5))) = Some 0 \<and>
   alerting (fst (evaluation alerting_monitor (reading 96 50 0 0 5))) \<and>
   alerts (snd (evaluation alerting_monitor (reading 96 50 0 0 5))) = []"
proof -
  have h1: "cpu_percent (e_info (reading 96 50 0 0 5)) \<ge> cpu_threshold alerting_monitor \<or>
    memory (e_info (reading 96 50 0 0 5)) \<ge> mem_threshold alerting_monitor"
    by (simp add: reading_def alerting_monitor_def started_monitor_def default_monitor_def
        init_def start_def)
  have h2: "(cpu_percent (e_info (reading 96 50 0 0 5)) \<le> 0 \<and> memory (e_info (reading 96 50 0 0 5)) \<le> 0) \<or>
    (case last_alert alerting_monitor of None \<Rightarrow> False
     | Some t \<Rightarrow> e_now (reading 96 50 0 0 5) - t < of_int (notify_interval_sec alerting_monitor))"
    by (simp add: reading_def alerting_monitor_def started_monitor_def default_monitor_def
        init_def start_def py_int_def)
  have s: "last_alert alerting_monitor = Some 0" "alerting alerting_monitor"
    by (simp_all add: alerting_monitor_def)
  show ?thesis
    using suppressed_breach_keeps_alert_state [OF h1 h2] h1 h2 s
    by (simp add: net_rates_frame)
qed

subsection \<open>Leaving the alerting state\<close>

lemma evaluation_alerting_mono: "alerting m \<Longrightarrow> alerting (fst (evaluation m e))"
  by (simp add: evaluation_def evaluate_cases net_rates_frame)

lemma tick_logs_recover:
  assumes "alerts (snd (evaluation m e)) = []" and "logs (snd (evaluation m e)) = []"
    and "alerting (fst (evaluation m e))"
    and "cpu_percent (e_info e) < cc" and "memory (e_info e) < cm"
  shows "logs (snd (tick cc cm m e)) = [Recovered]"
  using assms
  by (simp add: tick_def Let_def split_beta recover_def logs_append publish_eq)

text \<open>
  While the thresholds of the monitor are those \<open>_loop\<close> computed its clear thresholds
  from, the code does what the specification says of clearing. On an iteration that
  starts in the alerting state, with readings that are not negative, the monitor leaves
  the alerting state exactly when cpu is below the cpu threshold minus 15 and mem is
  below the memory threshold minus 15; on that iteration the notifier is not called and
  the only log line is the one of the recovery.
\<close>

lemma alerting_clears_iff:
  assumes "alerting m" and "0 \<le> cpu_percent (e_info e)" and "0 \<le> memory (e_info e)"
  shows "alerting (fst (tick (clear_cpu_of m) (clear_mem_of m) m e)) =
           (\<not> spec_clear_condition m (cpu_percent (e_info e)) (memory (e_info e))) \<and>
         (spec_clear_condition m (cpu_percent (e_info e)) (memory (e_info e)) \<longrightarrow>
            alerts (snd (tick (clear_cpu_of m) (clear_mem_of m) m e)) = [] \<and>
            logs (snd (tick (clear_cpu_of m) (clear_mem_of m) m e)) = [Recovered])"
proof -
  let ?cpu = "cpu_percent (e_info e)" and ?mem = "memory (e_info e)"
  have al: "alerting (fst (evaluation m e))"
    using assms(1) by (rule evaluation_alerting_mono)
  have iff: "(?cpu < clear_cpu_of m \<and> ?mem < clear_mem_of m) = spec_clear_condition m ?cpu ?mem"
    using assms(2,3) by (auto simp add: clear_cpu_of_def clear_mem_of_def spec_clear_condition_def)
  have first: "alerting (fst (tick (clear_cpu_of m) (clear_mem_of m) m e)) =
      (\<not> spec_clear_condition m ?cpu ?mem)"
    using al iff by (simp add: tick_alerting)
  have second: "alerts (snd (tick (clear_cpu_of m) (clear_mem_of m) m e)) = [] \<and>
      logs (snd (tick (clear_cpu_of m) (clear_mem_of m) m e)) = [Recovered]"
    if c: "spec_clear_condition m ?cpu ?mem"
  proof -
    from c have below: "?cpu < cpu_threshold m" "?mem < mem_threshold m"
      by (simp_all add: spec_clear_condition_def)
    then have quiet: "snd (evaluation m e) = []"
      by (simp add: evaluation_def evaluate_cases spec_fire_condition_def net_rates_frame)
    from c iff have lt: "?cpu < clear_cpu_of m" "?mem < clear_mem_of m"
      by simp_all
    have "logs (snd (tick (clear_cpu_of m) (clear_mem_of m) m e)) = [Recovered]"
      using quiet al lt by (intro tick_logs_recover) simp_all
    then show ?thesis
      using quiet by (simp add: tick_alerts)
  qed
  show ?thesis
    using first second by blast
qed

lemma alerting_clears_iff_example:
  "alerting alerting_monitor \<and>
   0 \<le> cpu_percent (e_info (reading 70 50 0 0 20)) \<and> 0 \<le> memory (e_info (reading 70 50 0 0 20)) \<and>
   spec_clear_condition alerting_monitor (cpu_percent (e_info (reading 70 50 0 0 20)))
     (memory (e_info (reading 70 50 0 0 20))) \<and>
   \<not> alerting (fst (tick (clear_cpu_of alerting_monitor) (clear_mem_of alerting_monitor)
                     alerting_monitor (reading 70 50 0 0 20))) \<and>
   alerts (snd (tick (clear_cpu_of alerting_monitor) (clear_mem_of alerting_monitor)
                  alerting_monitor (reading 70 50 0 0 20))) = [] \<and>
   logs (snd (tick (clear_cpu_of alerting_monitor) (clear_mem_of alerting_monitor)
                alerting_monitor (reading 70 50 0 0 20))) = [Recovered]"
proof -
  have h1: "alerting alerting_monitor"
    by (simp add: alerting_monitor_def)
  have h2: "0 \<le> cpu_percent (e_info (reading 70 50 0 0 20))"
    by (simp add: reading_def)
  have h3: "0 \<le> memory (e_info (reading 70 50 0 0 20))"
    by (simp add: reading_def)
  have c: "spec_clear_condition alerting_monitor (cpu_percent (e_info (reading 70 50 0 0 20)))
     (memory (e_info (reading 70 50 0 0 20)))"
    by (simp add: spec_clear_condition_def reading_def alerting_monitor_def started_monitor_def
        default_monitor_def init_def start_def)
  show ?thesis
    using alerting_clears_iff [OF h1 h2 h3] h1 h2 h3 c
    by simp
qed

lemma run_steps_iterations:
  "run_steps cc cm m (map Iteration es) = run_ticks cc cm m es"
  by (induction es arbitrary: m) (simp_all add: split_beta)

text \<open>Without a press of the button the loop of the window is \<open>_loop\<close>.\<close>

lemma loop_with_gui_iterations: "loop_with_gui m (map Iteration es) = loop m es"
  by (simp add: loop_with_gui_def loop_def run_steps_iterations)

text \<open>
  C4 fails on the code once the thresholds change while the loop runs. The monitor is
  started with the thresholds 90 and 70, so the loop keeps the clear thresholds 75 and
  55. It alerts at time 0 on cpu = 95. The Start button is then pressed with the CPU
  threshold set to 50: the monitor is still alerting, its thresholds are 50 and 70, and
  for the readings cpu = 60, mem = 10 the clear condition of the specification is false
  (60 is not below 50 - 15). The iteration with these readings nevertheless leaves the
  alerting state, since 60 < 75 and 10 < 55. At time 5 it does so within the notify
  interval; at time 20 the same iteration first calls the notifier (the second alert)
  and then clears.
\<close>

theorem stale_clear_thresholds:
  "alerting (fst (loop_with_gui started_monitor alert_then_lower_threshold)) \<and>
   cpu_threshold (fst (loop_with_gui started_monitor alert_then_lower_threshold)) = 50 \<and>
   mem_threshold (fst (loop_with_gui started_monitor alert_then_lower_threshold)) = 70 \<and>
   \<not> spec_clear_condition (fst (loop_with_gui started_monitor alert_then_lower_threshold)) 60 10 \<and>
   \<not> alerting (fst (loop_with_gui started_monitor (lowered_then_reading 5))) \<and>
   logs (snd (loop_with_gui started_monitor (lowered_then_reading 5))) =
     [Notification_failed Toast_unavailable, Alert_suppressed_rate_limit, Recovered] \<and>
   \<not> alerting (fst (loop_with_gui started_monitor (lowered_then_reading 20))) \<and>
   length (alerts (snd (loop_with_gui started_monitor (lowered_then_reading 20)))) = 2"
  by (simp add: model_defs loop_with_gui_def gui_start_def alert_then_lower_threshold_def
      lowered_then_reading_def)

text \<open>
  The other direction: with the CPU threshold raised to 100, the specification clears
  at cpu = 80 (below 100 - 15) and mem = 10, and the iteration stays in the alerting
  state, since 80 is not below 75.
\<close>

lemma stale_clear_thresholds_late:
  "spec_clear_condition
     (fst (loop_with_gui started_monitor [Iteration (reading 95 50 0 0 0), Start_pressed 100 70]))
     80 10 \<and>
   alerting (fst (loop_with_gui started_monitor
     [Iteration (reading 95 50 0 0 0), Start_pressed 100 70, Iteration (reading 80 10 0 0 5)]))"
  by (simp add: model_defs loop_with_gui_def gui_start_def)

subsection \<open>Observer failures\<close>

lemma tick_observer: "tick cc cm m (e\<lparr>e_observer := obs\<rparr>) = tick cc cm m e"
  by (simp add: tick_def Let_def publish_eq evaluation_def evaluate_def snapshot_def)

lemma run_ticks_observer:
  "run_ticks cc cm m (map (\<lambda>e. e\<lparr>e_observer := obs\<rparr>) es) = run_ticks cc cm m es"
  by (induction es arbitrary: m) (simp_all add: tick_observer)

text \<open>
  C7, as the code has it. An exception raised by the observer's callback is caught and
  dropped without a log line. The iteration is the same as if the callback had
  returned: the same monitor state and the same events after the call, so the
  threshold evaluation and the notifier call of that iteration happen as usual, and a
  loop in which the callback always raises runs as the loop in which it never does.
\<close>

theorem observer_exception_swallowed:
  "publish m i Raises = publish m i Returns \<and>
   tick cc cm m (e\<lparr>e_observer := Raises\<rparr>) = tick cc cm m (e\<lparr>e_observer := Returns\<rparr>) \<and>
   loop m (map (\<lambda>e. e\<lparr>e_observer := Raises\<rparr>) es) =
     loop m (map (\<lambda>e. e\<lparr>e_observer := Returns\<rparr>) es)"
  by (simp add: publish_eq tick_observer loop_def run_ticks_observer)

text \<open>
  C7 as stated fails in that the exception is not logged: on an iteration of a started
  monitor whose callback raises, without a breach, the only event is the call of the
  observer and no log line is written.
\<close>

theorem observer_exception_not_logged:
  "logs (snd (loop started_monitor [(reading 10 10 1000 500 0)\<lparr>e_observer := Raises\<rparr>])) = [] \<and>
   length (published
     (snd (loop started_monitor [(reading 10 10 1000 500 0)\<lparr>e_observer := Raises\<rparr>]))) = 1"
  by (simp add: model_defs)

subsection \<open>Construction\<close>




subsection \<open>Starting\<close>

text \<open>
  C9. Calling \<open>start()\<close> on a running monitor changes nothing and has no effect: no
  thread is started and nothing is logged. So two calls of \<open>start()\<close> in sequence leave
  the state and the events of one call, and start at most one thread.
\<close>

theorem start_idempotent:
  "(running m \<longrightarrow> start m = (m, [])) \<and>
   running (fst (start m)) \<and>
   seq start start m = start m \<and>
   length (spawns (snd (seq start start m))) \<le> 1"
  by (simp add: start_def seq_def)

theorem start_idempotent_witness:
  "running started_monitor \<and> start started_monitor = (started_monitor, []) \<and>
   seq start start default_monitor = start default_monitor \<and>
   spawns (snd (seq start start default_monitor)) = [Loop_Thread]"
proof -
  have h: "running started_monitor"
    by (simp add: started_monitor_def start_def default_monitor_def init_def)
  have n: "\<not> running default_monitor"
    by (simp add: default_monitor_def init_def)
  have s: "spawns (snd (start default_monitor)) = [Loop_Thread]"
    using n by (simp add: start_def)
  show ?thesis
    using start_idempotent [of started_monitor] start_idempotent [of default_monitor] h s
    by simp
qed

end
